theory Spec2Isabelle
  imports Complex_Main "HOL-Library.Sublist" "HOL-Library.AList" "HOL-Library.Multiset"
    "HOL-Library.List_Lexorder"
begin

section \<open>Python strings\<close>

text \<open>
  A Python \<^verbatim>\<open>str\<close> is a sequence of Unicode code points, a \<^verbatim>\<open>bytes\<close> object a sequence
  of byte values. Both are lists of naturals here; \<open>ustr\<close> turns an ASCII literal into
  its code points. Comparison of lists (for \<^verbatim>\<open>sorted\<close>) is the lexicographic one.
\<close>

type_synonym ustring = "nat list"
type_synonym bytes = "nat list"

definition ustr :: "string \<Rightarrow> ustring" where
  "ustr s = map of_char s"

text \<open>
  \<^verbatim>\<open>str.isspace\<close>, which is also the class \<^verbatim>\<open>\s\<close> of \<^verbatim>\<open>re\<close> on \<^verbatim>\<open>str\<close> patterns and the
  set that \<^verbatim>\<open>str.strip()\<close> removes (Unicode 14, CPython 3.11).
\<close>

definition isspace :: "nat \<Rightarrow> bool" where
  "isspace c = (c \<in> set [0x9, 0xA, 0xB, 0xC, 0xD, 0x1C, 0x1D, 0x1E, 0x1F, 0x20, 0x85, 0xA0,
      0x1680, 0x2000, 0x2001, 0x2002, 0x2003, 0x2004, 0x2005, 0x2006, 0x2007, 0x2008, 0x2009,
      0x200A, 0x2028, 0x2029, 0x202F, 0x205F, 0x3000])"

text \<open>\<^verbatim>\<open>s.strip()\<close>: the whitespace at both ends is removed.\<close>

definition strip :: "ustring \<Rightarrow> ustring" where
  "strip s = rev (dropWhile isspace (rev (dropWhile isspace s)))"

text \<open>
  \<^verbatim>\<open>s.replace(old, new)\<close>: the occurrences of \<open>old\<close> are replaced from left to right,
  without overlap; an empty \<open>old\<close> inserts \<open>new\<close> before every character and at the end.
\<close>

function replace :: "ustring \<Rightarrow> ustring \<Rightarrow> ustring \<Rightarrow> ustring" where
  "replace old new s =
     (if old = [] then concat (map (\<lambda>c. new @ [c]) s) @ new
      else if s = [] then []
      else if prefix old s then new @ replace old new (drop (length old) s)
      else hd s # replace old new (tl s))"
  by pat_completeness auto
termination
  by (relation "measure (\<lambda>(old, new, s). length s)") auto

declare replace.simps [simp del]

section \<open>sanitize\_filename\<close>

text \<open>
  The same function stands in \<^verbatim>\<open>download_mkw_music.py\<close>, \<^verbatim>\<open>verify_downloads.py\<close> and
  \<^verbatim>\<open>generate_download_urls.py\<close>:
  \<^verbatim>\<open>
  def sanitize_filename(filename):
      invalid_chars = '<>:"/\\|?*'
      for char in invalid_chars:
          filename = filename.replace(char, '_')
      return filename.strip()
  \<close>
  The nine invalid characters are given by their code points, in the order of the source.
\<close>

definition invalid_chars :: ustring where
  "invalid_chars = [0x3C, 0x3E, 0x3A, 0x22, 0x2F, 0x5C, 0x7C, 0x3F, 0x2A]"

definition sanitize_filename :: "ustring \<Rightarrow> ustring" where
  "sanitize_filename filename =
     strip (foldl (\<lambda>filename char. replace [char] (ustr ''_'') filename) filename invalid_chars)"

section \<open>More of Python's string library\<close>

text \<open>
  \<^verbatim>\<open>str.isdecimal\<close>, the class \<^verbatim>\<open>\d\<close> of \<^verbatim>\<open>re\<close> on \<^verbatim>\<open>str\<close> patterns: the Unicode category Nd
  (Unicode 14, CPython 3.11), runs of ten digits from the listed code points and the
  mathematical digits.
\<close>

definition decimal_starts :: "nat list" where
  "decimal_starts = [0x30, 0x660, 0x6F0, 0x7C0, 0x966, 0x9E6, 0xA66, 0xAE6, 0xB66, 0xBE6, 0xC66,
     0xCE6, 0xD66, 0xDE6, 0xE50, 0xED0, 0xF20, 0x1040, 0x1090, 0x17E0, 0x1810, 0x1946, 0x19D0,
     0x1A80, 0x1A90, 0x1B50, 0x1BB0, 0x1C40, 0x1C50, 0xA620, 0xA8D0, 0xA900, 0xA9D0, 0xA9F0,
     0xAA50, 0xABF0, 0xFF10, 0x104A0, 0x10D30, 0x11066, 0x110F0, 0x11136, 0x111D0, 0x112F0,
     0x11450, 0x114D0, 0x11650, 0x116C0, 0x11730, 0x118E0, 0x11950, 0x11C50, 0x11D50, 0x11DA0,
     0x16A60, 0x16AC0, 0x16B50, 0x1E140, 0x1E2F0, 0x1E950, 0x1FBF0]"

definition isdecimal :: "nat \<Rightarrow> bool" where
  "isdecimal c =
     (list_ex (\<lambda>lo. lo \<le> c \<and> c < lo + 10) decimal_starts \<or> (0x1D7CE \<le> c \<and> c \<le> 0x1D7FF))"

text \<open>\<^verbatim>\<open>needle in s\<close> on strings: \<open>needle\<close> occurs in \<open>s\<close>.\<close>

fun contains :: "ustring \<Rightarrow> ustring \<Rightarrow> bool" where
  "contains needle [] = (needle = [])"
| "contains needle (c # cs) = (prefix needle (c # cs) \<or> contains needle cs)"

text \<open>
  \<^verbatim>\<open>s.split(sep)\<close> for a separator that is not empty (Python raises \<^verbatim>\<open>ValueError\<close> on an
  empty one; the program splits at a constant): the pieces between the occurrences of
  \<open>sep\<close>, found from left to right.
\<close>

fun split_str :: "ustring \<Rightarrow> ustring \<Rightarrow> ustring list" where
  "split_str sep [] = [[]]"
| "split_str sep (c # cs) =
     (if sep \<noteq> [] \<and> prefix sep (c # cs) then [] # split_str sep (drop (length sep) (c # cs))
      else (case split_str sep cs of
              [] \<Rightarrow> [[c]]
            | piece # pieces \<Rightarrow> (c # piece) # pieces))"

text \<open>
  \<^verbatim>\<open>s.lower()\<close>. The letters A to Z go to a to z; U+0130 and the Kelvin sign U+212A are the
  only other code points whose lower case contains an ASCII character. Every other code
  point is kept as it is: CPython sends some of them to other code points outside ASCII,
  which no test of this program (all of them for ASCII substrings) can tell apart.
\<close>

definition lower_char :: "nat \<Rightarrow> ustring" where
  "lower_char c =
     (if 0x41 \<le> c \<and> c \<le> 0x5A then [c + 0x20]
      else if c = 0x130 then [0x69, 0x307]
      else if c = 0x212A then [0x6B]
      else [c])"

definition lower :: "ustring \<Rightarrow> ustring" where
  "lower s = concat (map lower_char s)"

text \<open>An integer in an f-string: its decimal digits.\<close>

fun str_of_nat :: "nat \<Rightarrow> ustring" where
  "str_of_nat n = (if n < 10 then [0x30 + n] else str_of_nat (n div 10) @ [0x30 + n mod 10])"

declare str_of_nat.simps [simp del]

subsection \<open>Decoding UTF-8\<close>

text \<open>
  \<^verbatim>\<open>b.decode('utf-8', errors=...)\<close> as CPython decodes: a byte that cannot start a
  sequence, or the start of a sequence up to the byte that cannot continue it, is one
  error; so is a sequence that the end of the input cuts short. An error gives U+FFFD
  with \<^verbatim>\<open>errors='replace'\<close> and nothing with \<^verbatim>\<open>errors='ignore'\<close>.
\<close>

datatype errors = Replace | Ignore

definition on_error :: "errors \<Rightarrow> ustring" where
  "on_error e = (case e of Replace \<Rightarrow> [0xFFFD] | Ignore \<Rightarrow> [])"

definition is_continuation :: "nat \<Rightarrow> bool" where
  "is_continuation b = (0x80 \<le> b \<and> b \<le> 0xBF)"

text \<open>The second byte of a sequence of three or four bytes, after the first byte \<open>b0\<close>:
  overlong forms, surrogates and code points beyond U+10FFFF are refused here.\<close>

definition second_ok :: "nat \<Rightarrow> nat \<Rightarrow> bool" where
  "second_ok b0 b1 =
     (is_continuation b1 \<and>
      (if b0 = 0xE0 then 0xA0 \<le> b1
       else if b0 = 0xED then b1 < 0xA0
       else if b0 = 0xF0 then 0x90 \<le> b1
       else if b0 = 0xF4 then b1 < 0x90
       else True))"

fun decode_utf8 :: "errors \<Rightarrow> bytes \<Rightarrow> ustring" where
  "decode_utf8 e [] = []"
| "decode_utf8 e (b0 # rest) =
     (if b0 < 0x80 then b0 # decode_utf8 e rest
      else if b0 < 0xC2 \<or> 0xF5 \<le> b0 then on_error e @ decode_utf8 e rest
      else if b0 < 0xE0 then
        (case rest of
           [] \<Rightarrow> on_error e
         | b1 # r1 \<Rightarrow>
             if is_continuation b1 then (b0 mod 0x20 * 0x40 + b1 mod 0x40) # decode_utf8 e r1
             else on_error e @ decode_utf8 e rest)
      else if b0 < 0xF0 then
        (case rest of
           [] \<Rightarrow> on_error e
         | b1 # r1 \<Rightarrow>
             if \<not> second_ok b0 b1 then on_error e @ decode_utf8 e rest
             else (case r1 of
                     [] \<Rightarrow> on_error e
                   | b2 # r2 \<Rightarrow>
                       if \<not> is_continuation b2 then on_error e @ decode_utf8 e r1
                       else (b0 mod 0x10 * 0x1000 + b1 mod 0x40 * 0x40 + b2 mod 0x40)
                              # decode_utf8 e r2))
      else
        (case rest of
           [] \<Rightarrow> on_error e
         | b1 # r1 \<Rightarrow>
             if \<not> second_ok b0 b1 then on_error e @ decode_utf8 e rest
             else (case r1 of
                     [] \<Rightarrow> on_error e
                   | b2 # r2 \<Rightarrow>
                       if \<not> is_continuation b2 then on_error e @ decode_utf8 e r1
                       else (case r2 of
                               [] \<Rightarrow> on_error e
                             | b3 # r3 \<Rightarrow>
                                 if \<not> is_continuation b3 then on_error e @ decode_utf8 e r2
                                 else (b0 mod 0x8 * 0x40000 + b1 mod 0x40 * 0x1000
                                         + b2 mod 0x40 * 0x40 + b3 mod 0x40)
                                        # decode_utf8 e r3))))"

subsection \<open>urllib.parse.unquote\<close>

text \<open>
  \<^verbatim>\<open>unquote(s)\<close> returns \<open>s\<close> when it has no \<^verbatim>\<open>%\<close>. Otherwise every maximal run of ASCII
  characters has its escapes \<^verbatim>\<open>%XX\<close> (two hexadecimal digits) turned into bytes and is then
  decoded as UTF-8 with \<^verbatim>\<open>errors='replace'\<close>; the characters outside ASCII stay.
\<close>

definition hex_value :: "nat \<Rightarrow> nat option" where
  "hex_value c =
     (if 0x30 \<le> c \<and> c \<le> 0x39 then Some (c - 0x30)
      else if 0x41 \<le> c \<and> c \<le> 0x46 then Some (c - 0x37)
      else if 0x61 \<le> c \<and> c \<le> 0x66 then Some (c - 0x57)
      else None)"

fun unquote_to_bytes :: "ustring \<Rightarrow> bytes" where
  "unquote_to_bytes [] = []"
| "unquote_to_bytes (c # cs) =
     (if c = 0x25 then
        (case cs of
           h1 # h2 # rest \<Rightarrow>
             (case (hex_value h1, hex_value h2) of
                (Some v1, Some v2) \<Rightarrow> (16 * v1 + v2) # unquote_to_bytes rest
              | _ \<Rightarrow> c # unquote_to_bytes cs)
         | _ \<Rightarrow> c # unquote_to_bytes cs)
      else c # unquote_to_bytes cs)"

function unquote_runs :: "ustring \<Rightarrow> ustring" where
  "unquote_runs s =
     (if s = [] then []
      else if hd s < 0x80 then
        decode_utf8 Replace (unquote_to_bytes (takeWhile (\<lambda>c. c < 0x80) s))
          @ unquote_runs (dropWhile (\<lambda>c. c < 0x80) s)
      else takeWhile (\<lambda>c. \<not> c < 0x80) s @ unquote_runs (dropWhile (\<lambda>c. \<not> c < 0x80) s))"
  by pat_completeness auto
termination
proof (relation "measure length")
  show "wf (measure length)" by simp
next
  fix s :: ustring
  assume "s \<noteq> []" "hd s < 0x80"
  then show "(dropWhile (\<lambda>c. c < 0x80) s, s) \<in> measure length"
    by (cases s) (auto simp: less_Suc_eq_le length_dropWhile_le)
next
  fix s :: ustring
  assume "s \<noteq> []" "\<not> hd s < 0x80"
  then show "(dropWhile (\<lambda>c. \<not> c < 0x80) s, s) \<in> measure length"
    by (cases s) (auto simp: less_Suc_eq_le length_dropWhile_le)
qed

declare unquote_runs.simps [simp del]

definition unquote :: "ustring \<Rightarrow> ustring" where
  "unquote s = (if 0x25 \<notin> set s then s else unquote_runs s)"

subsection \<open>Regular expressions\<close>

text \<open>
  The part of \<^verbatim>\<open>re\<close> that the song pattern uses. A pattern is a sequence of items: a
  literal text, or a greedy repetition of a character class with a least number of
  characters, which may be a capturing group. A repetition takes the longest run first
  and gives characters back one at a time while the rest of the pattern fails, as the
  backtracking matcher of \<^verbatim>\<open>re\<close> does. A match gives the texts of the groups and the
  input that is left.
\<close>

datatype rx_item =
    Lit ustring
  | Rep bool "nat \<Rightarrow> bool" nat

fun first_some :: "'a option list \<Rightarrow> 'a option" where
  "first_some [] = None"
| "first_some (None # xs) = first_some xs"
| "first_some (Some x # xs) = Some x"

fun match_items :: "rx_item list \<Rightarrow> ustring \<Rightarrow> (ustring list \<times> ustring) option" where
  "match_items [] s = Some ([], s)"
| "match_items (Lit l # items) s =
     (if prefix l s then match_items items (drop (length l) s) else None)"
| "match_items (Rep capture cls least # items) s =
     first_some
       (map (\<lambda>k. case match_items items (drop k s) of
                    None \<Rightarrow> None
                  | Some (groups, rest) \<Rightarrow>
                      Some ((if capture then [take k s] else []) @ groups, rest))
            (rev [least ..< Suc (length (takeWhile cls s))]))"

text \<open>
  \<^verbatim>\<open>re.findall(pattern, s)\<close>: the matches from left to right, each search starting where
  the match before it ended. A match of the song pattern is never empty; for an empty
  match the scan moves on by one character.
\<close>

function findall :: "rx_item list \<Rightarrow> ustring \<Rightarrow> ustring list list" where
  "findall pattern s =
     (case match_items pattern s of
        None \<Rightarrow> (if s = [] then [] else findall pattern (tl s))
      | Some (groups, rest) \<Rightarrow>
          if s = [] then [groups]
          else if length rest < length s then groups # findall pattern rest
          else groups # findall pattern (tl s))"
  by pat_completeness auto
termination
  by (relation "measure (\<lambda>(pattern, s). length s)") auto

declare findall.simps [simp del]

section \<open>HTTP\<close>

text \<open>
  An exception carries the text that \<^verbatim>\<open>str(e)\<close> gives. \<^verbatim>\<open>CalledProcessError\<close> (a
  command that ended with a code other than 0) is kept apart, since the converter
  catches it alone.
\<close>

datatype exn =
    HTTPError ustring
  | RequestException ustring
  | OSError ustring
  | CalledProcessError nat

fun str_exn :: "exn \<Rightarrow> ustring" where
  "str_exn (HTTPError msg) = msg"
| "str_exn (RequestException msg) = msg"
| "str_exn (OSError msg) = msg"
| "str_exn (CalledProcessError code) =
     ustr ''Command returned non-zero exit status '' @ str_of_nat code @ ustr ''.''"

text \<open>
  A request is its URL and the headers sent with it. A response has the status line,
  the final URL, the value of its \<^verbatim>\<open>content-type\<close> header when there is one, its text
  (\<^verbatim>\<open>response.text\<close>), and its body as the chunks that arrive, after which the stream may
  break with an exception.
\<close>

record request =
  req_url :: ustring
  req_headers :: "ustring \<rightharpoonup> ustring"

record response =
  status_code :: nat
  reason :: ustring
  resp_url :: ustring
  content_type :: "ustring option"
  resp_text :: ustring
  chunks :: "bytes list"
  stream_error :: "exn option"

text \<open>\<^verbatim>\<open>response.raise_for_status()\<close>: the exception raised for a status from 400 to 599.\<close>

definition raise_for_status :: "response \<Rightarrow> exn option" where
  "raise_for_status r =
     (if 400 \<le> status_code r \<and> status_code r < 500 then
        Some (HTTPError (str_of_nat (status_code r) @ ustr '' Client Error: '' @ reason r
                           @ ustr '' for url: '' @ resp_url r))
      else if 500 \<le> status_code r \<and> status_code r < 600 then
        Some (HTTPError (str_of_nat (status_code r) @ ustr '' Server Error: '' @ reason r
                           @ ustr '' for url: '' @ resp_url r))
      else None)"

text \<open>\<^verbatim>\<open>response.content\<close>: the whole body, or the exception that broke the stream.\<close>

definition content :: "response \<Rightarrow> exn + bytes" where
  "content r = (case stream_error r of Some e \<Rightarrow> Inl e | None \<Rightarrow> Inr (concat (chunks r)))"

section \<open>The world of a run\<close>

text \<open>
  A file is named by its directory and its name in it (\<^verbatim>\<open>Path(dir) / name\<close>); the names
  the scripts build have no \<^verbatim>\<open>/\<close>. The file system is the list of the files with their
  contents, in the order a directory listing gives them; a path occurs once.
\<close>

datatype path = Path (parent: ustring) (name: ustring)

type_synonym filesystem = "(path \<times> bytes) list"

definition path_str :: "path \<Rightarrow> ustring" where
  "path_str p = parent p @ ustr ''/'' @ name p"

text \<open>
  \<^verbatim>\<open>PurePath.stem\<close> and \<^verbatim>\<open>with_suffix\<close> of pathlib: the suffix starts at the last dot of
  the name, when that dot is neither the first nor the last character.
\<close>

definition rfind :: "nat \<Rightarrow> ustring \<Rightarrow> nat option" where
  "rfind c s =
     (if c \<in> set s then Some (length s - 1 - length (takeWhile (\<lambda>x. x \<noteq> c) (rev s))) else None)"

definition stem :: "ustring \<Rightarrow> ustring" where
  "stem nm =
     (case rfind 0x2E nm of
        None \<Rightarrow> nm
      | Some i \<Rightarrow> if 0 < i \<and> i < length nm - 1 then take i nm else nm)"

definition with_suffix :: "path \<Rightarrow> ustring \<Rightarrow> path" where
  "with_suffix p new_suffix = Path (parent p) (stem (name p) @ new_suffix)"

text \<open>
  What a run sees and leaves behind: the files, the directories, the headers of the one
  \<^verbatim>\<open>requests.Session\<close> of a download run, the requests, pauses, pools and commands in
  the order they happen, and the calls of \<^verbatim>\<open>print\<close>, one text for each call.
\<close>

datatype event =
    Get request
  | Sleep real
  | Run "ustring list"
  | ThreadPool nat
  | ProcessPool nat
  | Submit path path

record world =
  fs :: filesystem
  dirs :: "ustring list"
  session_headers :: "ustring \<rightharpoonup> ustring"
  events :: "event list"
  stdout :: "ustring list"

text \<open>
  What the run cannot decide itself is asked of the environment: the answer to a
  request and the result of a command (each by the number of events before it, so that
  the same request may be answered differently later), whether \<^verbatim>\<open>open(path, 'wb')\<close>
  fails, the value of \<^verbatim>\<open>random.random()\<close>, the rounding of float arithmetic, Python's
  formatting of a float with a number of decimals, the working directory, the number of
  CPUs, the line that \<^verbatim>\<open>input()\<close> reads, the time a conversion took as
  \<^verbatim>\<open>{elapsed_time:.1f}\<close> prints it, what \<^verbatim>\<open>download_vgmstream_cli()\<close> returns (the path of
  the tool it fetched and unpacked, or \<^verbatim>\<open>None\<close>; its own requests and files are not part
  of the model), and the order in which \<^verbatim>\<open>as_completed\<close> yields the futures of a pool
  (the positions of the tasks, for a given number of tasks). A command returns its exit
  code and, when it writes its output file, the contents of that file.
\<close>

record env =
  http_get :: "nat \<Rightarrow> request \<Rightarrow> exn + response"
  subprocess :: "nat \<Rightarrow> ustring list \<Rightarrow> nat \<times> bytes option"
  open_error :: "path \<Rightarrow> exn option"
  random :: "nat \<Rightarrow> real"
  fl :: "real \<Rightarrow> real"
  format_float :: "nat \<Rightarrow> real \<Rightarrow> ustring"
  cwd :: ustring
  cpu_count :: nat
  input_line :: ustring
  elapsed_text :: ustring
  vgmstream_cli :: "ustring option"
  as_completed :: "nat \<Rightarrow> nat list"

definition exists :: "world \<Rightarrow> path \<Rightarrow> bool" where
  "exists w p = (map_of (fs w) p \<noteq> None)"

definition write_file :: "path \<Rightarrow> bytes \<Rightarrow> world \<Rightarrow> world" where
  "write_file p data w = w\<lparr>fs := AList.update p data (fs w)\<rparr>"

definition unlink :: "path \<Rightarrow> world \<Rightarrow> world" where
  "unlink p w = w\<lparr>fs := AList.delete p (fs w)\<rparr>"

definition mkdir :: "ustring \<Rightarrow> world \<Rightarrow> world" where
  "mkdir d w = (if d \<in> set (dirs w) then w else w\<lparr>dirs := dirs w @ [d]\<rparr>)"

definition print :: "ustring \<Rightarrow> world \<Rightarrow> world" where
  "print line w = w\<lparr>stdout := stdout w @ [line]\<rparr>"

definition add_event :: "event \<Rightarrow> world \<Rightarrow> world" where
  "add_event e w = w\<lparr>events := events w @ [e]\<rparr>"

text \<open>The files of a directory whose names end in \<open>ext\<close>: \<^verbatim>\<open>Path(d).glob('*' + ext)\<close>.\<close>

definition glob :: "ustring \<Rightarrow> ustring \<Rightarrow> world \<Rightarrow> path list" where
  "glob d ext w = filter (\<lambda>p. parent p = d \<and> suffix ext (name p)) (map fst (fs w))"

text \<open>\<^verbatim>\<open>f.stat().st_size\<close> of a file that exists.\<close>

definition st_size :: "world \<Rightarrow> path \<Rightarrow> nat" where
  "st_size w p = (case map_of (fs w) p of None \<Rightarrow> 0 | Some data \<Rightarrow> length data)"

text \<open>\<^verbatim>\<open>session.get(url, ...)\<close>: the request goes out with the headers of the session.\<close>

definition session_get :: "env \<Rightarrow> ustring \<Rightarrow> world \<Rightarrow> (exn + response) \<times> world" where
  "session_get env u w =
     (let req = \<lparr>req_url = u, req_headers = session_headers w\<rparr>
      in (http_get env (length (events w)) req, add_event (Get req) w))"

text \<open>\<^verbatim>\<open>requests.get(url)\<close>, outside a session; the headers that the library adds by
  itself are not recorded.\<close>

definition requests_get :: "env \<Rightarrow> ustring \<Rightarrow> world \<Rightarrow> (exn + response) \<times> world" where
  "requests_get env u w =
     (let req = \<lparr>req_url = u, req_headers = Map.empty\<rparr>
      in (http_get env (length (events w)) req, add_event (Get req) w))"

definition set_header :: "ustring \<Rightarrow> ustring \<Rightarrow> world \<Rightarrow> world" where
  "set_header k v w = w\<lparr>session_headers := (session_headers w)(k \<mapsto> v)\<rparr>"

text \<open>
  \<^verbatim>\<open>random.uniform(a, b)\<close> is \<^verbatim>\<open>a + (b - a) * random()\<close>, each operation rounded to a float.
\<close>

definition random_uniform :: "env \<Rightarrow> world \<Rightarrow> real \<Rightarrow> real \<Rightarrow> real" where
  "random_uniform env w a b = fl env (a + fl env (fl env (b - a) * random env (length (events w))))"

definition sleep :: "real \<Rightarrow> world \<Rightarrow> world" where
  "sleep d w = add_event (Sleep d) w"

text \<open>
  \<^verbatim>\<open>subprocess.run(cmd, check=True)\<close>: the command runs, writes its output file \<open>target\<close>
  if it writes one, and a code other than 0 raises \<^verbatim>\<open>CalledProcessError\<close>. The commands
  are taken to touch no other file.
\<close>

definition subprocess_run :: "env \<Rightarrow> ustring list \<Rightarrow> path option \<Rightarrow> world \<Rightarrow> (exn + unit) \<times> world" where
  "subprocess_run env cmd target w =
     (let (code, out) = subprocess env (length (events w)) cmd;
          w = add_event (Run cmd) w;
          w = (case (target, out) of
                 (Some p, Some data) \<Rightarrow> write_file p data w
               | _ \<Rightarrow> w)
      in (if code \<noteq> 0 then Inl (CalledProcessError code) else Inr (), w))"

section \<open>Scraping the song list\<close>

text \<open>
  The pattern of the three scripts,
  \<^verbatim>\<open><tr id="s(\d+)">\s*<td[^>]*><a href="/song/\d+">([^<]+)</a>\<close>,
  with the quotation mark written as its code point 0x22.
\<close>

definition song_pattern :: "rx_item list" where
  "song_pattern =
     [Lit (ustr ''<tr id='' @ [0x22] @ ustr ''s''),
      Rep True isdecimal 1,
      Lit ([0x22] @ ustr ''>''),
      Rep False isspace 0,
      Lit (ustr ''<td''),
      Rep False (\<lambda>c. c \<noteq> 0x3E) 0,
      Lit (ustr ''>''),
      Lit (ustr ''<a href='' @ [0x22] @ ustr ''/song/''),
      Rep False isdecimal 1,
      Lit ([0x22] @ ustr ''>''),
      Rep True (\<lambda>c. c \<noteq> 0x3C) 1,
      Lit (ustr ''</a>'')]"

text \<open>
  \<^verbatim>\<open>unquote(song_name.replace('&#039;', "'").replace('&amp;', '&'))\<close>, the same in the
  three scripts.
\<close>

definition clean_name :: "ustring \<Rightarrow> ustring" where
  "clean_name song_name =
     unquote (replace (ustr ''&amp;'') (ustr ''&'')
                (replace (ustr ''&#039;'') [0x27] song_name))"

definition game_url :: ustring where
  "game_url = ustr ''https://smashcustommusic.net/game/5609''"

text \<open>
  \<^verbatim>\<open>generate_download_urls.fetch_song_data\<close>: the whole page is searched. The \<^verbatim>\<open>try\<close> block
  of each \<^verbatim>\<open>fetch\<close> function turns any exception into the empty list.
\<close>

record url_song =
  url_song_id :: ustring
  url_song_name :: ustring
  page_url :: ustring
  download_url :: ustring

definition generate_fetch_song_data :: "env \<Rightarrow> world \<Rightarrow> url_song list \<times> world" where
  "generate_fetch_song_data env w =
     (let w = print (ustr ''Fetching Mario Kart World song list...'') w;
          (got, w) = requests_get env game_url w;
          failed = (\<lambda>e. ([], print (ustr ''Error fetching song data: '' @ str_exn e) w))
      in case got of
           Inl e \<Rightarrow> failed e
         | Inr response \<Rightarrow>
             (case raise_for_status response of
                Some e \<Rightarrow> failed e
              | None \<Rightarrow>
                  let html = resp_text response;
                      matches = findall song_pattern html;
                      songs = map (\<lambda>groups.
                                let song_id = groups ! 0;
                                    song_name = clean_name (groups ! 1)
                                in \<lparr>url_song_id = song_id,
                                    url_song_name = song_name,
                                    page_url = ustr ''https://smashcustommusic.net/song/'' @ song_id,
                                    download_url =
                                      ustr ''https://smashcustommusic.net/brstm/'' @ song_id\<rparr>)
                              matches
                  in (songs,
                      print (ustr ''Found '' @ str_of_nat (length songs) @ ustr '' songs'') w)))"

text \<open>
  \<^verbatim>\<open>download_mkw_music.fetch_song_data\<close>: the page is cut at the first
  \<^verbatim>\<open>Remixes / Fanmade\<close>, and what stands before it is searched.
\<close>

record song =
  song_id :: ustring
  song_name :: ustring
  song_url :: ustring

definition main_songs_section :: "ustring \<Rightarrow> ustring" where
  "main_songs_section html =
     (if contains (ustr ''Remixes / Fanmade'') html
      then split_str (ustr ''Remixes / Fanmade'') html ! 0
      else html)"

definition fetch_song_data :: "env \<Rightarrow> world \<Rightarrow> song list \<times> world" where
  "fetch_song_data env w =
     (let w = print ([0x0A] @ ustr ''Fetching Mario Kart World song list...'') w;
          (got, w) = requests_get env game_url w;
          failed = (\<lambda>e. ([], print (ustr ''Error fetching song data: '' @ str_exn e) w))
      in case got of
           Inl e \<Rightarrow> failed e
         | Inr response \<Rightarrow>
             (case raise_for_status response of
                Some e \<Rightarrow> failed e
              | None \<Rightarrow>
                  let html = resp_text response;
                      matches = findall song_pattern (main_songs_section html);
                      songs = map (\<lambda>groups.
                                let song_id = groups ! 0;
                                    song_name = clean_name (groups ! 1)
                                in \<lparr>song_id = song_id,
                                    song_name = song_name,
                                    song_url =
                                      ustr ''https://smashcustommusic.net/brstm/'' @ song_id\<rparr>)
                              matches
                  in (songs,
                      print (ustr ''Found '' @ str_of_nat (length songs)
                               @ ustr '' songs (excluding fan remixes)'') w)))"

text \<open>
  \<^verbatim>\<open>verify_downloads.fetch_expected_songs\<close>: the same cut and search, and the names alone.
\<close>

definition fetch_expected_songs :: "env \<Rightarrow> world \<Rightarrow> ustring list \<times> world" where
  "fetch_expected_songs env w =
     (let (got, w) = requests_get env game_url w;
          failed = (\<lambda>e. ([], print (ustr ''Error fetching song data: '' @ str_exn e) w))
      in case got of
           Inl e \<Rightarrow> failed e
         | Inr response \<Rightarrow>
             (case raise_for_status response of
                Some e \<Rightarrow> failed e
              | None \<Rightarrow>
                  let html = resp_text response;
                      matches = findall song_pattern (main_songs_section html)
                  in (map (\<lambda>groups. clean_name (groups ! 1)) matches, w)))"

section \<open>The downloader\<close>

text \<open>
  \<^verbatim>\<open>download_song(song, output_dir, session)\<close>. The body of its \<^verbatim>\<open>try\<close> is
  \<open>download_song_try\<close>: it gives the text that the body returns, or the exception that
  leaves it. The steps follow the source: the target file, the test that it exists,
  the visit of the song page with the game page as referrer, the pause, the request of
  the file with the song page as referrer, the look at a \<^verbatim>\<open>text/html\<close> answer for the
  words of the bot protection, the writing of the chunks (a stream that breaks leaves what
  was written), and the test of a small file for \<^verbatim>\<open>html\<close>.
\<close>

definition download_song_try :: "env \<Rightarrow> song \<Rightarrow> ustring \<Rightarrow> world \<Rightarrow> (exn + ustring) \<times> world" where
  "download_song_try env song output_dir w =
     (let filename = sanitize_filename (song_name song) @ ustr ''.brstm'';
          filepath = Path output_dir filename
      in if exists w filepath then
           (Inr (ustr ''Skipped (already exists): '' @ song_name song), w)
         else
           let song_page_url = ustr ''https://smashcustommusic.net/song/'' @ song_id song;
               w = set_header (ustr ''Referer'') game_url w;
               (got, w) = session_get env song_page_url w
           in case got of
                Inl e \<Rightarrow> (Inl e, w)
              | Inr response \<Rightarrow>
           (case raise_for_status response of
                Some e \<Rightarrow> (Inl e, w)
              | None \<Rightarrow>
           let w = sleep (random_uniform env w 1.0 3.0) w;
               w = set_header (ustr ''Referer'') song_page_url w;
               (got, w) = session_get env (song_url song) w
           in case got of
                Inl e \<Rightarrow> (Inl e, w)
              | Inr response \<Rightarrow>
           (case raise_for_status response of
                Some e \<Rightarrow> (Inl e, w)
              | None \<Rightarrow>
           let content_type = (case content_type response of None \<Rightarrow> [] | Some v \<Rightarrow> v);
               bot = (if contains (ustr ''text/html'') content_type then
                        (case content response of
                           Inl e \<Rightarrow> Inl e
                         | Inr body \<Rightarrow>
                             let error_check = decode_utf8 Ignore (take 500 body)
                             in Inr (contains (ustr ''unusual activity'') error_check
                                       \<or> contains (ustr ''robot'') error_check))
                      else Inr False)
           in case bot of
                Inl e \<Rightarrow> (Inl e, w)
              | Inr True \<Rightarrow>
                  (Inr (ustr ''Failed: '' @ song_name song @ ustr '' - Bot protection triggered''), w)
              | Inr False \<Rightarrow>
           (case open_error env filepath of
                Some e \<Rightarrow> (Inl e, w)
              | None \<Rightarrow>
           let data = concat (filter (\<lambda>chunk. chunk \<noteq> []) (chunks response));
               w = write_file filepath data w
           in case stream_error response of
                Some e \<Rightarrow> (Inl e, w)
              | None \<Rightarrow>
                  if st_size w filepath < 1000
                       \<and> contains (ustr ''html'') (lower (decode_utf8 Ignore data))
                  then (Inr (ustr ''Failed: '' @ song_name song
                               @ ustr '' - Got error page instead of file''),
                        unlink filepath w)
                  else (Inr (ustr ''Downloaded: '' @ song_name song), w)))))"

text \<open>\<^verbatim>\<open>except Exception as e: return f"Failed: {song['name']} - {str(e)}"\<close>\<close>

definition download_song :: "env \<Rightarrow> song \<Rightarrow> ustring \<Rightarrow> world \<Rightarrow> ustring \<times> world" where
  "download_song env song output_dir w =
     (case download_song_try env song output_dir w of
        (Inr result, w) \<Rightarrow> (result, w)
      | (Inl e, w) \<Rightarrow> (ustr ''Failed: '' @ song_name song @ ustr '' - '' @ str_exn e, w))"

text \<open>
  The tasks of the pool. With one worker they run one after the other, in the order
  they were submitted; that is the run modelled here, for any \<open>max_workers\<close>.
\<close>

fun run_downloads :: "env \<Rightarrow> song list \<Rightarrow> ustring \<Rightarrow> world \<Rightarrow> ustring list \<times> world" where
  "run_downloads env [] output_dir w = ([], w)"
| "run_downloads env (song # songs) output_dir w =
     (let (result, w) = download_song env song output_dir w;
          (results, w) = run_downloads env songs output_dir w
      in (result # results, w))"

text \<open>The headers of \<^verbatim>\<open>session.headers.update({...})\<close>; they cover every header that a
  new session starts with.\<close>

definition browser_headers :: "(ustring \<times> ustring) list" where
  "browser_headers =
     [(ustr ''User-Agent'',
       ustr ''Mozilla/5.0 (Macintosh; Intel Mac OS X 10_15_7) AppleWebKit/537.36 (KHTML, like Gecko) Chrome/118.0.0.0 Safari/537.36''),
      (ustr ''Accept'',
       ustr ''text/html,application/xhtml+xml,application/xml;q=0.9,image/webp,*/*;q=0.8''),
      (ustr ''Accept-Language'', ustr ''en-US,en;q=0.5''),
      (ustr ''Accept-Encoding'', ustr ''gzip, deflate, br''),
      (ustr ''DNT'', ustr ''1''),
      (ustr ''Connection'', ustr ''keep-alive''),
      (ustr ''Upgrade-Insecure-Requests'', ustr ''1'')]"

text \<open>The line printed for a result, with the count of the results seen so far.\<close>

definition report_line :: "nat \<Rightarrow> nat \<Rightarrow> ustring \<Rightarrow> ustring" where
  "report_line completed total_count result =
     ustr ''['' @ str_of_nat completed @ ustr ''/'' @ str_of_nat total_count @ ustr ''] ''
       @ (if contains (ustr ''Failed'') result then [0x274C] @ ustr '' ''
          else if contains (ustr ''Skipped'') result then [0x23ED, 0xFE0F] @ ustr ''  ''
          else [0x2705] @ ustr '' '')
       @ result"

text \<open>The loop over \<^verbatim>\<open>as_completed(future_to_song)\<close>, on the results in the order they
  are yielded.\<close>

fun report_results :: "nat \<Rightarrow> ustring list \<Rightarrow> nat \<times> nat \<times> world \<Rightarrow> nat \<times> nat \<times> world" where
  "report_results total_count [] state = state"
| "report_results total_count (result # results) (completed, failed, w) =
     (let completed = completed + 1;
          failed = (if contains (ustr ''Failed'') result then failed + 1 else failed);
          w = print (report_line completed total_count result) w
      in report_results total_count results (completed, failed, w))"

text \<open>
  \<^verbatim>\<open>download_all_songs(songs, max_workers=1)\<close>: the argument \<open>max_workers\<close> is \<open>None\<close> when
  the caller leaves it out, and the default of the source is taken then. The function is
  written in three parts: what it does before the tasks run (the directory, the
  messages, the session with its headers, the pool), the tasks, and the loop over the
  results with the summary.
\<close>

definition download_all_songs_begin :: "env \<Rightarrow> song list \<Rightarrow> nat option \<Rightarrow> world \<Rightarrow> world" where
  "download_all_songs_begin env songs max_workers_arg w =
     (let max_workers = (case max_workers_arg of None \<Rightarrow> 1 | Some n \<Rightarrow> n);
          output_dir = ustr ''mkw_music_brstm'';
          w = mkdir output_dir w;
          absolute = cwd env @ ustr ''/'' @ output_dir;
          w = print ([0x0A] @ ustr ''Downloading '' @ str_of_nat (length songs)
                       @ ustr '' BRSTM files to '' @ absolute) w;
          w = print (ustr ''Using '' @ str_of_nat max_workers @ ustr '' concurrent download(s)'') w;
          w = print (ustr ''Note: Downloads are rate-limited to avoid triggering bot protection'') w;
          w = print (ustr ''This will take a while with 1-3 second delays between each download''
                       @ [0x0A]) w;
          w = w\<lparr>session_headers := map_of browser_headers\<rparr>;
          w = add_event (ThreadPool max_workers) w
      in w)"

definition download_all_songs_report :: "env \<Rightarrow> song list \<Rightarrow> ustring list \<Rightarrow> world \<Rightarrow> world" where
  "download_all_songs_report env songs results w =
     (let output_dir = ustr ''mkw_music_brstm'';
          absolute = cwd env @ ustr ''/'' @ output_dir;
          yielded = map (\<lambda>i. results ! i) (as_completed env (length songs));
          (completed, failed, w) = report_results (length songs) yielded (0, 0, w);
          w = print ([0x0A] @ replicate 50 0x3D) w;
          w = print (ustr ''Download complete!'') w;
          w = print (ustr ''Total songs: '' @ str_of_nat (length songs)) w;
          w = print (ustr ''Downloaded: '' @ str_of_nat (completed - failed)) w;
          w = print (ustr ''Failed: '' @ str_of_nat failed) w;
          w = print (ustr ''Output directory: '' @ absolute) w
      in w)"

definition download_all_songs :: "env \<Rightarrow> song list \<Rightarrow> nat option \<Rightarrow> world \<Rightarrow> world" where
  "download_all_songs env songs max_workers_arg w =
     (let w = download_all_songs_begin env songs max_workers_arg w;
          (results, w) = run_downloads env songs (ustr ''mkw_music_brstm'') w
      in download_all_songs_report env songs results w)"

text \<open>
  \<^verbatim>\<open>main()\<close> up to the downloads: it leaves with \<^verbatim>\<open>sys.exit\<close> when the tool or the song list
  is missing or the answer is not \<^verbatim>\<open>y\<close>, and otherwise calls
  \<^verbatim>\<open>download_all_songs(songs)\<close>. The writing of the conversion script and the closing
  messages follow; they are not modelled.
\<close>

datatype outcome = Returned | Exit nat | Raised exn

definition main :: "env \<Rightarrow> world \<Rightarrow> outcome \<times> world" where
  "main env w =
     (let w = print (ustr ''Mario Kart World Music Downloader'') w;
          w = print (replicate 50 0x3D) w
      in case vgmstream_cli env of
           None \<Rightarrow>
             (Exit 1, print ([0x0A] @ ustr ''Failed to download vgmstream-cli. Exiting.'') w)
         | Some vgmstream_path \<Rightarrow>
             let (songs, w) = fetch_song_data env w
             in if songs = [] then
                  (Exit 1, print ([0x0A] @ ustr ''Failed to fetch song data. Exiting.'') w)
                else
                  let w = print ([0x0A] @ ustr ''Ready to download. This will download approximately 267 BRSTM files (excluding fan remixes).'') w;
                      w = print (ustr ''Continue? (y/n): '') w
                  in if lower (input_line env) \<noteq> ustr ''y'' then
                       (Exit 0, print (ustr ''Download cancelled.'') w)
                     else (Returned, download_all_songs env songs None w))"

section \<open>The converter\<close>

definition vgmstream_path :: path where
  "vgmstream_path = Path (ustr ''/Users/ethan/sandbox/marioworld/vgmstream'') (ustr ''vgmstream-cli'')"

definition VGMSTREAM :: ustring where
  "VGMSTREAM = path_str vgmstream_path"

definition INPUT_DIR :: ustring where
  "INPUT_DIR = ustr ''mkw_music_brstm''"

definition OUTPUT_DIR :: ustring where
  "OUTPUT_DIR = ustr ''mkw_music_alac''"

text \<open>
  \<^verbatim>\<open>check_dependencies()\<close>: \<open>None\<close> when all is there, or the code of \<^verbatim>\<open>sys.exit\<close>.
\<close>

definition check_dependencies :: "env \<Rightarrow> world \<Rightarrow> nat option \<times> world" where
  "check_dependencies env w =
     (if \<not> exists w vgmstream_path then
        (Some 1, print (ustr ''Error: vgmstream-cli not found at '' @ VGMSTREAM) w)
      else if INPUT_DIR \<notin> set (dirs w) then
        (Some 1, print (ustr ''Error: Input directory '' @ INPUT_DIR @ ustr '' not found'') w)
      else
        let (ran, w) = subprocess_run env [ustr ''ffmpeg'', ustr ''-version''] None w
        in case ran of
             Inl e \<Rightarrow>
               (Some 1,
                print (ustr ''Install with: brew install ffmpeg'')
                  (print (ustr ''Error: ffmpeg not found. Please install ffmpeg for ALAC conversion.'') w))
           | Inr u \<Rightarrow> (None, w))"

text \<open>
  \<^verbatim>\<open>convert_file(brstm_path, output_path, file_index, total_files)\<close>. The body of its
  \<^verbatim>\<open>try\<close> runs the two commands and removes the WAV file; \<^verbatim>\<open>unlink\<close> of a file that is
  not there raises \<^verbatim>\<open>FileNotFoundError\<close>, an \<^verbatim>\<open>OSError\<close>.
\<close>

definition convert_file_try ::
  "env \<Rightarrow> path \<Rightarrow> path \<Rightarrow> nat \<Rightarrow> nat \<Rightarrow> world \<Rightarrow> (exn + ustring) \<times> world" where
  "convert_file_try env brstm_path output_path file_index total_files w =
     (let basename = stem (name brstm_path);
          temp_wav = with_suffix output_path (ustr ''.wav'');
          (ran, w) = subprocess_run env
                       [VGMSTREAM, ustr ''-o'', path_str temp_wav, path_str brstm_path]
                       (Some temp_wav) w
      in case ran of
           Inl e \<Rightarrow> (Inl e, w)
         | Inr u \<Rightarrow>
             let (ran, w) = subprocess_run env
                              [ustr ''ffmpeg'', ustr ''-i'', path_str temp_wav, ustr ''-c:a'',
                               ustr ''alac'', ustr ''-y'', path_str output_path]
                              (Some output_path) w
             in case ran of
                  Inl e \<Rightarrow> (Inl e, w)
                | Inr u \<Rightarrow>
                    if exists w temp_wav then
                      (Inr (ustr ''['' @ str_of_nat file_index @ ustr ''/'' @ str_of_nat total_files
                              @ ustr ''] '' @ [0x2705] @ ustr '' Converted: '' @ basename),
                       unlink temp_wav w)
                    else
                      (Inl (OSError (ustr ''[Errno 2] No such file or directory: ''
                                       @ [0x27] @ path_str temp_wav @ [0x27])), w))"

text \<open>The handler \<^verbatim>\<open>except subprocess.CalledProcessError\<close>; any other exception leaves
  the function.\<close>

definition convert_file ::
  "env \<Rightarrow> path \<Rightarrow> path \<Rightarrow> nat \<Rightarrow> nat \<Rightarrow> world \<Rightarrow> (exn + ustring) \<times> world" where
  "convert_file env brstm_path output_path file_index total_files w =
     (let basename = stem (name brstm_path);
          temp_wav = with_suffix output_path (ustr ''.wav'')
      in case convert_file_try env brstm_path output_path file_index total_files w of
           (Inl (CalledProcessError code), w) \<Rightarrow>
             (Inr (ustr ''['' @ str_of_nat file_index @ ustr ''/'' @ str_of_nat total_files
                     @ ustr ''] '' @ [0x274C] @ ustr '' Failed: '' @ basename),
              if exists w temp_wav then unlink temp_wav w else w)
         | (result, w) \<Rightarrow> (result, w))"

text \<open>The loop that sorts the input files into those skipped and the tasks.\<close>

definition scan_file :: "nat \<Rightarrow> (path \<times> path) list \<times> nat \<times> world \<Rightarrow> path \<Rightarrow> (path \<times> path) list \<times> nat \<times> world" where
  "scan_file total_files state brstm_path =
     (case state of (tasks, file_index, w) \<Rightarrow>
        let output_path = Path OUTPUT_DIR (stem (name brstm_path) @ ustr ''.m4a'')
        in if exists w output_path then
             (tasks, file_index + 1,
              print (ustr ''['' @ str_of_nat (file_index + 1) @ ustr ''/'' @ str_of_nat total_files
                       @ ustr ''] '' @ [0x23ED, 0xFE0F] @ ustr ''  Skipped (exists): ''
                       @ stem (name brstm_path)) w)
           else (tasks @ [(brstm_path, output_path)], file_index, w))"

text \<open>
  The tasks of the pool, numbered from \<open>idx\<close>. The workers of the pool run at the same
  time, each on files of its own; the model runs the tasks one after the other.
\<close>

fun run_conversions ::
  "env \<Rightarrow> (path \<times> path) list \<Rightarrow> nat \<Rightarrow> nat \<Rightarrow> world \<Rightarrow> (exn + ustring) list \<times> world" where
  "run_conversions env [] idx total_files w = ([], w)"
| "run_conversions env ((brstm_path, output_path) # tasks) idx total_files w =
     (let (result, w) = convert_file env brstm_path output_path idx total_files w;
          (results, w) = run_conversions env tasks (idx + 1) total_files w
      in (result # results, w))"

text \<open>The loop over \<^verbatim>\<open>as_completed(futures)\<close>: \<^verbatim>\<open>future.result()\<close> raises what the task
  raised.\<close>

fun print_results :: "(exn + ustring) list \<Rightarrow> world \<Rightarrow> exn option \<times> world" where
  "print_results [] w = (None, w)"
| "print_results (Inl e # results) w = (Some e, w)"
| "print_results (Inr result # results) w = print_results results (print result w)"

text \<open>
  \<^verbatim>\<open>convert_files_parallel()\<close>. The block of the pool, with the messages after it, is
  \<open>convert_pool\<close>: the pool, the tasks submitted, the tasks run, the results printed as
  they are yielded.
\<close>

definition convert_pool ::
  "env \<Rightarrow> (path \<times> path) list \<Rightarrow> nat \<Rightarrow> nat \<Rightarrow> world \<Rightarrow> outcome \<times> world" where
  "convert_pool env tasks file_index total_files w =
     (let w = add_event (ProcessPool (cpu_count env)) w;
          w = foldl (\<lambda>w (brstm_path, output_path).
                       add_event (Submit brstm_path output_path) w) w tasks;
          (results, w) = run_conversions env tasks (file_index + 1) total_files w;
          yielded = map (\<lambda>i. results ! i) (as_completed env (length tasks));
          (raised, w) = print_results yielded w
      in case raised of
           Some e \<Rightarrow> (Raised e, w)
         | None \<Rightarrow>
             let w = print ([0x0A] @ ustr ''Conversion complete!'') w;
                 w = print (ustr ''Converted '' @ str_of_nat (length tasks)
                              @ ustr '' files in '' @ elapsed_text env
                              @ ustr '' seconds'') w;
                 w = print (ustr ''ALAC files saved to: '' @ OUTPUT_DIR) w
             in (Returned, w))"

definition convert_files_parallel :: "env \<Rightarrow> world \<Rightarrow> outcome \<times> world" where
  "convert_files_parallel env w =
     (case check_dependencies env w of
        (Some code, w) \<Rightarrow> (Exit code, w)
      | (None, w) \<Rightarrow>
          let w = mkdir OUTPUT_DIR w;
              brstm_files = glob INPUT_DIR (ustr ''.brstm'') w
          in if brstm_files = [] then
               (Returned, print (ustr ''No BRSTM files found in '' @ INPUT_DIR) w)
             else
               let w = print (ustr ''Converting BRSTM files to ALAC...'') w;
                   w = print (ustr ''Input: '' @ INPUT_DIR) w;
                   w = print (ustr ''Output: '' @ OUTPUT_DIR) w;
                   w = print (ustr ''Using '' @ str_of_nat (cpu_count env)
                                @ ustr '' parallel workers'') w;
                   w = print [] w;
                   total_files = length brstm_files;
                   (tasks, file_index, w) = foldl (scan_file total_files) ([], 0, w) brstm_files
               in if tasks = [] then
                    (Returned, print ([0x0A] @ ustr ''All files already converted!'') w)
                  else convert_pool env tasks file_index total_files w)"

section \<open>The verification script\<close>

text \<open>
  \<^verbatim>\<open>verify_downloads()\<close> prints its findings and returns nothing. The model also hands
  out, for a run that gets as far as the comparison, the values of the variables
  \<open>missing\<close>, \<open>extra\<close> and \<open>small_files\<close>; a run that returns early gives \<open>None\<close>.
  The sizes in the statistics are floats: the divisions are rounded by \<open>fl\<close> and the
  texts come from \<open>format_float\<close>.
\<close>

record report =
  missing :: "ustring set"
  extra :: "ustring set"
  small_files :: "path list"

text \<open>The lines for a set of names: the count, the first ten in sorted order, and how
  many more there are.\<close>

definition print_names :: "ustring \<Rightarrow> ustring set \<Rightarrow> world \<Rightarrow> world" where
  "print_names title names w =
     (if names = {} then w
      else
        let w = print ([0x0A, 0x26A0, 0xFE0F] @ ustr ''  '' @ title @ ustr '' (''
                         @ str_of_nat (card names) @ ustr ''):'') w;
            w = foldl (\<lambda>w f. print (ustr ''  - '' @ f) w) w (take 10 (sorted_list_of_set names))
        in if card names > 10 then
             print (ustr ''  ... and '' @ str_of_nat (card names - 10) @ ustr '' more'') w
           else w)"

definition verify_downloads :: "env \<Rightarrow> world \<Rightarrow> report option \<times> world" where
  "verify_downloads env w =
     (let w = print ([0x1F50D] @ ustr '' Verifying Mario Kart World Music Downloads'') w;
          w = print (replicate 50 0x3D) w;
          w = print ([0x0A] @ ustr ''Fetching expected song list from website...'') w;
          (expected_songs, w) = fetch_expected_songs env w
      in if expected_songs = [] then
           (None, print ([0x274C] @ ustr '' Failed to fetch expected song list'') w)
         else
           let w = print ([0x2705] @ ustr '' Found '' @ str_of_nat (length expected_songs)
                            @ ustr '' expected songs on website'') w;
               download_dir = ustr ''mkw_music_brstm''
           in if download_dir \<notin> set (dirs w) then
                (None, print ([0x274C] @ ustr '' Download directory '' @ [0x27] @ download_dir
                                @ [0x27] @ ustr '' not found'') w)
              else
                let downloaded_files = glob download_dir (ustr ''.brstm'') w;
                    w = print ([0x0A, 0x2705] @ ustr '' Found '' @ str_of_nat (length downloaded_files)
                                 @ ustr '' BRSTM files in '' @ download_dir) w;
                    expected_set = set (map (\<lambda>song. sanitize_filename song @ ustr ''.brstm'')
                                          expected_songs);
                    downloaded_set = set (map name downloaded_files);
                    missing = expected_set - downloaded_set;
                    extra = downloaded_set - expected_set;
                    w = print ([0x0A, 0x1F4CA] @ ustr '' Verification Results:'') w;
                    w = print (ustr ''Expected songs: '' @ str_of_nat (length expected_songs)) w;
                    w = print (ustr ''Downloaded files: '' @ str_of_nat (length downloaded_files)) w;
                    w = (if length expected_songs = length downloaded_files
                            \<and> length downloaded_files = 267
                         then print ([0x0A, 0x2705] @ ustr '' COUNT VERIFICATION: PASSED - Exactly 267 songs downloaded (excluding fan remixes)!'') w
                         else print ([0x0A, 0x274C] @ ustr '' COUNT VERIFICATION: FAILED - Expected 267, got ''
                                       @ str_of_nat (length downloaded_files)) w);
                    w = print_names (ustr ''Missing files'') missing w;
                    w = print_names (ustr ''Extra files'') extra w;
                    w = (if missing = {} \<and> extra = {}
                         then print ([0x0A, 0x2705] @ ustr '' FILE MATCHING: PASSED - All expected files present, no extras!'') w
                         else w);
                    w = print ([0x0A, 0x1F4CF] @ ustr '' File Size Analysis:'') w;
                    sizes = map (st_size w) downloaded_files;
                    total_size = sum_list sizes;
                    avg_size = (if sizes = [] then 0
                                else fl env (real total_size / real (length sizes)));
                    min_size = (if sizes = [] then 0 else fold min (tl sizes) (hd sizes));
                    max_size = (if sizes = [] then 0 else fold max (tl sizes) (hd sizes));
                    w = print (ustr ''Total size: ''
                                 @ format_float env 2 (fl env (real total_size / (1024 * 1024 * 1024)))
                                 @ ustr '' GB'') w;
                    w = print (ustr ''Average file size: ''
                                 @ format_float env 2 (fl env (avg_size / (1024 * 1024)))
                                 @ ustr '' MB'') w;
                    w = print (ustr ''Smallest file: ''
                                 @ format_float env 2 (fl env (real min_size / (1024 * 1024)))
                                 @ ustr '' MB'') w;
                    w = print (ustr ''Largest file: ''
                                 @ format_float env 2 (fl env (real max_size / (1024 * 1024)))
                                 @ ustr '' MB'') w;
                    small_files = filter (\<lambda>f. st_size w f < 100000) downloaded_files;
                    w = (if small_files = [] then w
                         else
                           foldl (\<lambda>w f. print (ustr ''  - '' @ name f @ ustr '': ''
                                                  @ format_float env 1 (fl env (real (st_size w f) / 1024))
                                                  @ ustr '' KB'') w)
                                 (print ([0x0A, 0x26A0, 0xFE0F] @ ustr ''  Suspiciously small files (''
                                           @ str_of_nat (length small_files) @ ustr ''):'') w)
                                 (take 5 small_files));
                    w = print ([0x0A] @ replicate 50 0x3D) w;
                    w = (if length downloaded_files = 267 \<and> missing = {} \<and> extra = {}
                            \<and> small_files = []
                         then
                           print (ustr ''All 267 Mario Kart World songs downloaded successfully (excluding fan remixes)!'')
                             (print ([0x2705] @ ustr '' FINAL VERDICT: ALL CHECKS PASSED! '' @ [0x1F389]) w)
                         else
                           let w = print ([0x26A0, 0xFE0F] @ ustr ''  FINAL VERDICT: Some issues detected'') w;
                               w = (if length downloaded_files \<noteq> 267
                                    then print (ustr ''  - Wrong count: ''
                                                  @ str_of_nat (length downloaded_files)
                                                  @ ustr '' instead of 267'') w
                                    else w);
                               w = (if missing \<noteq> {}
                                    then print (ustr ''  - Missing files: '' @ str_of_nat (card missing)) w
                                    else w);
                               w = (if extra \<noteq> {}
                                    then print (ustr ''  - Extra files: '' @ str_of_nat (card extra)) w
                                    else w);
                               w = (if small_files \<noteq> []
                                    then print (ustr ''  - Suspiciously small files: ''
                                                  @ str_of_nat (length small_files)) w
                                    else w)
                           in w)
                in (Some \<lparr>missing = missing, extra = extra, small_files = small_files\<rparr>, w))"

section \<open>Words for the claims\<close>

text \<open>The events that a step adds to the events of the world it starts in.\<close>

definition new_events :: "world \<Rightarrow> world \<Rightarrow> event list" where
  "new_events w w' = drop (length (events w)) (events w')"

text \<open>
  The two requests of \<open>download_song\<close> and its pause, as they come out of a world \<open>w\<close>:
  the request of the song page, sent with the game page as referrer; the draw of
  \<^verbatim>\<open>random.uniform(1.0, 3.0)\<close>, made after that request; and the request of the file, sent
  with the song page as referrer.
\<close>

definition song_page_url :: "song \<Rightarrow> ustring" where
  "song_page_url song = ustr ''https://smashcustommusic.net/song/'' @ song_id song"

definition page_request :: "world \<Rightarrow> song \<Rightarrow> request" where
  "page_request w song =
     \<lparr>req_url = song_page_url song,
      req_headers = (session_headers w)(ustr ''Referer'' \<mapsto> game_url)\<rparr>"

definition pause :: "env \<Rightarrow> world \<Rightarrow> real" where
  "pause env w = fl env (1 + fl env (fl env (3 - 1) * random env (Suc (length (events w)))))"

definition file_request :: "world \<Rightarrow> song \<Rightarrow> request" where
  "file_request w song =
     \<lparr>req_url = song_url song,
      req_headers = (session_headers w)(ustr ''Referer'' \<mapsto> song_page_url song)\<rparr>"

text \<open>The file that \<open>download_song\<close> writes for a song.\<close>

definition song_file :: "ustring \<Rightarrow> song \<Rightarrow> path" where
  "song_file output_dir song = Path output_dir (sanitize_filename (song_name song) @ ustr ''.brstm'')"

text \<open>The two commands of \<open>convert_file\<close>, and the two files it writes.\<close>

definition temp_wav_of :: "path \<Rightarrow> path" where
  "temp_wav_of output_path = with_suffix output_path (ustr ''.wav'')"

definition vgmstream_cmd :: "path \<Rightarrow> path \<Rightarrow> ustring list" where
  "vgmstream_cmd brstm_path output_path =
     [VGMSTREAM, ustr ''-o'', path_str (temp_wav_of output_path), path_str brstm_path]"

definition ffmpeg_cmd :: "path \<Rightarrow> ustring list" where
  "ffmpeg_cmd output_path =
     [ustr ''ffmpeg'', ustr ''-i'', path_str (temp_wav_of output_path), ustr ''-c:a'',
      ustr ''alac'', ustr ''-y'', path_str output_path]"

text \<open>The output file of the converter for an input file.\<close>

definition m4a_of :: "path \<Rightarrow> path" where
  "m4a_of brstm_path = Path OUTPUT_DIR (stem (name brstm_path) @ ustr ''.m4a'')"

text \<open>The order in which \<^verbatim>\<open>as_completed\<close> yields \<open>n\<close> futures names each of them once.\<close>

definition yields_each_once :: "env \<Rightarrow> nat \<Rightarrow> bool" where
  "yields_each_once env n = (mset (as_completed env n) = mset [0..<n])"

section \<open>Facts about the string functions\<close>

lemma ustr_underscore: "ustr ''_'' = [0x5F]"
  by (simp add: ustr_def)

lemma replace_char: "replace [a] [b] s = map (\<lambda>c. if c = a then b else c) s"
proof (induction s)
  case Nil
  show ?case by (simp add: replace.simps)
next
  case (Cons x xs)
  show ?case
  proof (cases "x = a")
    case True
    then show ?thesis using Cons by (subst replace.simps) simp
  next
    case False
    then show ?thesis using Cons by (subst replace.simps) simp
  qed
qed

lemma foldl_replace_chars:
  "foldl (\<lambda>f ch. replace [ch] [b] f) s chs = map (\<lambda>c. if c \<in> set chs then b else c) s"
  if "b \<notin> set chs"
  using that
proof (induction chs arbitrary: s)
  case Nil
  show ?case by simp
next
  case (Cons a chs)
  from Cons.prems have ab: "a \<noteq> b" and b: "b \<notin> set chs" by auto
  have "foldl (\<lambda>f ch. replace [ch] [b] f) s (a # chs)
      = foldl (\<lambda>f ch. replace [ch] [b] f) (map (\<lambda>c. if c = a then b else c) s) chs"
    by (simp add: replace_char)
  also have "\<dots> = map (\<lambda>c. if c \<in> set chs then b else c)
      (map (\<lambda>c. if c = a then b else c) s)"
    using Cons.IH [OF b] .
  also have "\<dots> = map (\<lambda>c. if c \<in> set (a # chs) then b else c) s"
    using ab b by auto
  finally show ?case .
qed

lemma underscore_valid: "0x5F \<notin> set invalid_chars"
  by (simp add: invalid_chars_def)

lemma replace_invalid_chars:
  "foldl (\<lambda>filename char. replace [char] (ustr ''_'') filename) s invalid_chars
     = map (\<lambda>c. if c \<in> set invalid_chars then 0x5F else c) s"
  using foldl_replace_chars [of "0x5F" invalid_chars s] underscore_valid
  by (simp add: ustr_underscore)

lemma sanitize_filename_map:
  "sanitize_filename s = strip (map (\<lambda>c. if c \<in> set invalid_chars then 0x5F else c) s)"
  by (simp add: sanitize_filename_def replace_invalid_chars)

lemma set_strip: "set (strip s) \<subseteq> set s"
proof -
  have "set (strip s) = set (dropWhile isspace (rev (dropWhile isspace s)))"
    by (simp add: strip_def)
  also have "\<dots> \<subseteq> set (rev (dropWhile isspace s))"
    by (rule set_dropWhileD [THEN subsetI])
  also have "\<dots> \<subseteq> set s"
    using set_dropWhileD [of _ isspace s] by auto
  finally show ?thesis .
qed

lemma takeWhile_dropWhile_same: "takeWhile P (dropWhile P xs) = []"
  by (induction xs) auto

lemma dropWhile_id_iff: "takeWhile P xs = [] \<Longrightarrow> dropWhile P xs = xs"
  by (cases xs) (auto split: if_splits)

lemma dropWhile_rev_dropWhile:
  "takeWhile P (rev (dropWhile P (rev (dropWhile P xs)))) = []"
proof (cases "dropWhile P xs")
  case Nil
  show ?thesis unfolding Nil by simp
next
  case (Cons y ys)
  then have y: "\<not> P y" by (metis hd_dropWhile list.sel(1) list.distinct(1))
  have "rev (dropWhile P xs) = rev ys @ [y]" using Cons by simp
  then have "dropWhile P (rev (dropWhile P xs)) = dropWhile P (rev ys) @ [y]"
    using y by (simp add: dropWhile_append)
  then have "rev (dropWhile P (rev (dropWhile P xs))) = y # rev (dropWhile P (rev ys))"
    by simp
  then show ?thesis using y by simp
qed

lemma strip_no_leading: "takeWhile isspace (strip s) = []"
  by (simp add: strip_def dropWhile_rev_dropWhile)

lemma strip_no_trailing: "takeWhile isspace (rev (strip s)) = []"
  by (simp add: strip_def takeWhile_dropWhile_same)

lemma strip_fixed:
  "takeWhile isspace s = [] \<Longrightarrow> takeWhile isspace (rev s) = [] \<Longrightarrow> strip s = s"
  by (simp add: strip_def dropWhile_id_iff)

lemma strip_strip: "strip (strip s) = strip s"
  by (rule strip_fixed) (rule strip_no_leading, rule strip_no_trailing)

lemma sanitize_filename_valid: "set (sanitize_filename s) \<inter> set invalid_chars = {}"
proof -
  have "set (sanitize_filename s) \<subseteq> set (map (\<lambda>c. if c \<in> set invalid_chars then 0x5F else c) s)"
    unfolding sanitize_filename_map by (rule set_strip)
  moreover have "set (map (\<lambda>c. if c \<in> set invalid_chars then 0x5F else c) s) \<inter> set invalid_chars = {}"
    using underscore_valid by auto
  ultimately show ?thesis by blast
qed

lemma sanitize_filename_fixed:
  "sanitize_filename (sanitize_filename s) = sanitize_filename s"
proof -
  have "map (\<lambda>c. if c \<in> set invalid_chars then 0x5F else c) (sanitize_filename s)
      = sanitize_filename s"
    using sanitize_filename_valid [of s] by (intro map_idI) auto
  then have "sanitize_filename (sanitize_filename s) = strip (sanitize_filename s)"
    by (subst sanitize_filename_map) simp
  also have "\<dots> = sanitize_filename s"
    by (simp add: sanitize_filename_map strip_strip)
  finally show ?thesis .
qed

section \<open>Claims\<close>

text \<open>
  C10. For every input string \<open>s\<close>, \<open>sanitize_filename s\<close> contains none of the characters
  \<^verbatim>\<open>< > : " / \ | ? *\<close>, has no whitespace at its start (the run of whitespace it starts
  with is empty) and none at its end, and sanitizing it again changes nothing.
\<close>

theorem sanitize_filename_clean_and_idempotent:
  "set (sanitize_filename s) \<inter> set invalid_chars = {}
   \<and> takeWhile isspace (sanitize_filename s) = []
   \<and> takeWhile isspace (rev (sanitize_filename s)) = []
   \<and> sanitize_filename (sanitize_filename s) = sanitize_filename s"
  by (simp add: sanitize_filename_valid sanitize_filename_fixed)
    (simp add: sanitize_filename_map strip_no_leading strip_no_trailing)

end
